theory Spec2Isabelle
  imports Main
begin

section \<open>JavaScript values\<close>

text \<open>
  The worker (\<^verbatim>\<open>worker/index.js\<close>) is untyped JavaScript: every value it reads from the
  request body, from the environment and from the upstream API is a JavaScript value, and
  the checks it makes on them are JavaScript's truthiness tests. The values are modelled
  as they are after \<^verbatim>\<open>JSON.parse\<close>:
  \<^item> \<open>JUndefined\<close> is \<^verbatim>\<open>undefined\<close> (what reading an absent property gives);
  \<^item> \<open>JNum s\<close> is a number, given by the string \<open>s\<close> that JavaScript prints for it
    (\<^verbatim>\<open>Number.prototype.toString\<close>: \<^verbatim>\<open>42\<close>, \<^verbatim>\<open>-1.5\<close>, \<^verbatim>\<open>1e+21\<close>). Distinct numbers
    print differently, but for \<^verbatim>\<open>0\<close> and \<^verbatim>\<open>-0\<close>, which both print as \<^verbatim>\<open>0\<close> and which
    the code cannot tell apart. The code looks at a number in two ways only: it tests its
    truthiness and it converts it to a string;
  \<^item> \<open>JObj kvs\<close> is a plain object with the own properties \<open>kvs\<close>, read by \<open>map_of\<close>
    (a parsed object holds each key once); its prototype is \<^verbatim>\<open>Object.prototype\<close>;
  \<^item> \<open>JInherited p\<close> is the built-in that \<^verbatim>\<open>Object.prototype\<close> holds under the name
    \<open>p\<close> (a function, or \<^verbatim>\<open>Object.prototype\<close> itself for \<^verbatim>\<open>__proto__\<close>): what a
    lookup of \<open>p\<close> in a plain object without an own property \<open>p\<close> returns.
\<close>

datatype jsval =
    JUndefined
  | JNull
  | JBool bool
  | JNum string
  | JStr string
  | JArr "jsval list"
  | JObj "(string \<times> jsval) list"
  | JInherited string

text \<open>
  JavaScript's \<^verbatim>\<open>ToBoolean\<close>: what \<^verbatim>\<open>if (x)\<close> and \<^verbatim>\<open>!x\<close> test. The falsy numbers are
  zero, printed \<^verbatim>\<open>0\<close>, and \<^verbatim>\<open>NaN\<close> (which no JSON text parses to).
\<close>

fun js_truthy :: "jsval \<Rightarrow> bool" where
  "js_truthy JUndefined = False"
| "js_truthy JNull = False"
| "js_truthy (JBool b) = b"
| "js_truthy (JNum s) = (s \<noteq> ''0'' \<and> s \<noteq> ''NaN'')"
| "js_truthy (JStr s) = (s \<noteq> [])"
| "js_truthy (JArr xs) = True"
| "js_truthy (JObj kvs) = True"
| "js_truthy (JInherited p) = True"

text \<open>The errors the code throws itself, and those the runtime throws for it.\<close>

datatype js_error =
    LinearApiError nat      \<comment> \<open>\<^verbatim>\<open>new Error(`Linear API error: ${response.status}`)\<close>\<close>
  | LinearGraphQLError jsval \<comment> \<open>\<^verbatim>\<open>new Error(`Linear GraphQL error: ${JSON.stringify(data.errors)}`)\<close>\<close>
  | TypeError               \<comment> \<open>a property read on \<^verbatim>\<open>null\<close> or \<^verbatim>\<open>undefined\<close>, a failed conversion\<close>
  | SyntaxError             \<comment> \<open>\<^verbatim>\<open>.json()\<close> on a body that is not JSON\<close>
  | FetchFailed             \<comment> \<open>\<^verbatim>\<open>fetch\<close> rejects: no response from the upstream\<close>

text \<open>
  Reading a property \<open>p\<close> of a parsed JSON value, for a name \<open>p\<close> that no built-in
  prototype defines: the handler reads \<^verbatim>\<open>issueId\<close>, \<^verbatim>\<open>targetState\<close>,
  \<^verbatim>\<open>targetStateId\<close>, \<^verbatim>\<open>order\<close> and \<^verbatim>\<open>issue\<close> this way. On \<^verbatim>\<open>null\<close> and
  \<^verbatim>\<open>undefined\<close> the read throws; on a number, a boolean, a string or an array it gives
  \<^verbatim>\<open>undefined\<close>.
\<close>

fun js_prop :: "jsval \<Rightarrow> string \<Rightarrow> js_error + jsval" where
  "js_prop JUndefined p = Inl TypeError"
| "js_prop JNull p = Inl TypeError"
| "js_prop (JObj kvs) p = Inr (case map_of kvs p of None \<Rightarrow> JUndefined | Some v \<Rightarrow> v)"
| "js_prop v p = Inr JUndefined"

text \<open>
  \<^verbatim>\<open>ToString\<close>, which \<^verbatim>\<open>stateMapping[targetState]\<close> applies to its key and the template
  string of the 404 message to \<^verbatim>\<open>targetState\<close>. An array is joined with commas, with
  \<^verbatim>\<open>null\<close> and \<^verbatim>\<open>undefined\<close> elements printed as nothing. A plain object prints as
  \<^verbatim>\<open>[object Object]\<close> through the inherited \<^verbatim>\<open>toString\<close>; when it has an own property
  \<^verbatim>\<open>toString\<close> (never callable in parsed JSON) the conversion falls back to
  \<^verbatim>\<open>valueOf\<close>, which gives no primitive, and throws a \<^verbatim>\<open>TypeError\<close>.
\<close>

fun js_to_string :: "jsval \<Rightarrow> js_error + string"
  and array_join :: "jsval list \<Rightarrow> js_error + string" where
  "js_to_string JUndefined = Inr ''undefined''"
| "js_to_string JNull = Inr ''null''"
| "js_to_string (JBool b) = Inr (if b then ''true'' else ''false'')"
| "js_to_string (JNum s) = Inr s"
| "js_to_string (JStr s) = Inr s"
| "js_to_string (JArr xs) = array_join xs"
| "js_to_string (JObj kvs) =
     (if ''toString'' \<in> fst ` set kvs then Inl TypeError else Inr ''[object Object]'')"
| "js_to_string (JInherited p) =
     Inr (if p = ''__proto__'' then ''[object Object]''
          else ''function '' @ (if p = ''constructor'' then ''Object'' else p)
               @ ''() { [native code] }'')"
| "array_join [] = Inr ''''"
| "array_join (x # xs) =
     (case (if x = JUndefined \<or> x = JNull then Inr '''' else js_to_string x) of
        Inl e \<Rightarrow> Inl e
      | Inr s \<Rightarrow>
          (if xs = [] then Inr s
           else case array_join xs of Inl e \<Rightarrow> Inl e | Inr r \<Rightarrow> Inr (s @ '','' @ r)))"

text \<open>
  The guard \<^verbatim>\<open>order && order.length > 0\<close> in front of the \<^verbatim>\<open>console.log\<close>. Console
  output is no part of the response or of the upstream traffic and is not modelled, so
  all that is kept of the guard is whether evaluating it throws. A falsy \<^verbatim>\<open>order\<close> ends
  the guard; the \<^verbatim>\<open>length\<close> of a string or an array is a number, that of a number or a
  boolean is \<^verbatim>\<open>undefined\<close>; only an object can hold another value as its own
  \<^verbatim>\<open>length\<close>, and the comparison converts that value to a primitive, which throws exactly
  when \<open>js_to_string\<close> does.
\<close>

fun order_guard :: "jsval \<Rightarrow> js_error + unit" where
  "order_guard (JObj kvs) =
     (case map_of kvs ''length'' of
        None \<Rightarrow> Inr ()
      | Some l \<Rightarrow> (case js_to_string l of Inl e \<Rightarrow> Inl e | Inr s \<Rightarrow> Inr ()))"
| "order_guard v = Inr ()"

section \<open>Requests, responses and the environment\<close>

datatype payload =
    NoBody                  \<comment> \<open>\<^verbatim>\<open>new Response(null, ...)\<close>\<close>
  | PlainText string
  | Json jsval              \<comment> \<open>\<^verbatim>\<open>JSON.stringify(v)\<close> of the value \<open>v\<close>\<close>
  | ErrorJson js_error      \<comment> \<open>\<^verbatim>\<open>JSON.stringify({ error: error.message })\<close> of a caught error\<close>

record response =
  status :: nat
  headers :: "(string \<times> string) list"
  body :: payload

text \<open>
  Of a request the worker reads the method, the path of its URL and, on
  \<^verbatim>\<open>POST /update\<close>, the body through \<^verbatim>\<open>await request.json()\<close>: \<open>json\<close> is the parsed
  body, \<open>None\<close> when the body is not JSON and the call rejects.
\<close>

record request =
  http_method :: string   \<comment> \<open>\<^verbatim>\<open>request.method\<close>\<close>
  pathname :: string      \<comment> \<open>\<^verbatim>\<open>new URL(request.url).pathname\<close>\<close>
  json :: "jsval option"  \<comment> \<open>\<^verbatim>\<open>await request.json()\<close>\<close>

record env =
  LINEAR_API_KEY :: jsval   \<comment> \<open>\<open>JUndefined\<close> when the secret is not set\<close>

definition corsHeaders :: "(string \<times> string) list" where
  "corsHeaders =
     [(''Access-Control-Allow-Origin'', ''*''),
      (''Access-Control-Allow-Methods'', ''GET, POST, OPTIONS''),
      (''Access-Control-Allow-Headers'', ''Content-Type'')]"

text \<open>\<^verbatim>\<open>new Response(JSON.stringify(...), { status, headers: { ...corsHeaders, 'Content-Type': 'application/json' } })\<close>\<close>

definition json_response :: "nat \<Rightarrow> payload \<Rightarrow> response" where
  "json_response st b =
     \<lparr>status = st, headers = corsHeaders @ [(''Content-Type'', ''application/json'')], body = b\<rparr>"

section \<open>The upstream API\<close>

text \<open>
  The Linear GraphQL API is outside the program. A reply to one \<^verbatim>\<open>fetch\<close> is modelled by
  what the code reads of it, in the order it reads it: whether a response arrives at all,
  its HTTP status (\<^verbatim>\<open>response.ok\<close> is a status from 200 to 299), whether its body is
  JSON, the value of \<^verbatim>\<open>data.errors\<close>, and the value the code takes out of
  \<^verbatim>\<open>data.data\<close> (\<open>None\<close> when a read on the way there throws). The workflow states
  come typed as the query selects them: an \<^verbatim>\<open>id\<close> and a \<^verbatim>\<open>name\<close>, both strings.
\<close>

record workflow_state =
  state_id :: string
  state_name :: string

datatype 'a graphql_body =
    NotJson
  | GraphQL jsval "'a option"   \<comment> \<open>\<^verbatim>\<open>data.errors\<close> and the payload under \<^verbatim>\<open>data.data\<close>\<close>

datatype 'a upstream_response =
    NoResponse
  | HttpResponse nat "'a graphql_body"

text \<open>
  The two operations, each a function of what the request carries: the
  \<^verbatim>\<open>Authorization\<close> header, and for the mutation the variables \<^verbatim>\<open>id\<close> and
  \<^verbatim>\<open>stateId\<close>. The payload of the mutation is \<^verbatim>\<open>data.data.issueUpdate\<close>.
\<close>

record upstream =
  workflowStates :: "jsval \<Rightarrow> workflow_state list upstream_response"
  issueUpdate :: "jsval \<Rightarrow> jsval \<Rightarrow> jsval \<Rightarrow> jsval upstream_response"

datatype upstream_call =
    WorkflowStatesQuery jsval
  | IssueUpdateMutation jsval jsval jsval

definition response_ok :: "nat \<Rightarrow> bool" where
  "response_ok st = (200 \<le> st \<and> st \<le> 299)"

section \<open>The worker's state\<close>

text \<open>
  \<open>stateCache\<close> is the module variable \<^verbatim>\<open>let stateCache = null\<close>: \<open>None\<close> for
  \<^verbatim>\<open>null\<close>, otherwise the own properties of the object that maps state names to ids.
  \<open>upstream_calls\<close> records every \<^verbatim>\<open>fetch\<close> to the upstream API, in order.
\<close>

record worker =
  stateCache :: "(string \<rightharpoonup> string) option"
  upstream_calls :: "upstream_call list"

text \<open>
  The cache is the plain object \<^verbatim>\<open>{}\<close>, so it inherits from \<^verbatim>\<open>Object.prototype\<close>. These
  are the names defined there.
\<close>

definition object_prototype_names :: "string list" where
  "object_prototype_names =
     [''constructor'', ''__defineGetter__'', ''__defineSetter__'', ''hasOwnProperty'',
      ''__lookupGetter__'', ''__lookupSetter__'', ''isPrototypeOf'', ''propertyIsEnumerable'',
      ''toString'', ''valueOf'', ''__proto__'', ''toLocaleString'']"

text \<open>
  \<^verbatim>\<open>stateCache[state.name] = state.id\<close>. Under \<^verbatim>\<open>__proto__\<close> the object inherits a setter,
  which the assignment calls; the setter ignores a string, and no own property is made.
  Every other name becomes an own property.
\<close>

definition cache_put :: "(string \<rightharpoonup> string) \<Rightarrow> string \<Rightarrow> string \<Rightarrow> (string \<rightharpoonup> string)" where
  "cache_put c k v = (if k = ''__proto__'' then c else c(k \<mapsto> v))"

text \<open>
  \<^verbatim>\<open>stateMapping[key]\<close>: the own property, else what \<^verbatim>\<open>Object.prototype\<close> holds under
  the name, else \<^verbatim>\<open>undefined\<close>.
\<close>

definition cache_get :: "(string \<rightharpoonup> string) \<Rightarrow> string \<Rightarrow> jsval" where
  "cache_get c k =
     (case c k of
        Some v \<Rightarrow> JStr v
      | None \<Rightarrow> if k \<in> set object_prototype_names then JInherited k else JUndefined)"

text \<open>The \<^verbatim>\<open>forEach\<close> of \<open>getStateMapping\<close> over the states, starting from \<^verbatim>\<open>{}\<close>.\<close>

fun build_index :: "(string \<rightharpoonup> string) \<Rightarrow> workflow_state list \<Rightarrow> (string \<rightharpoonup> string)" where
  "build_index c [] = c"
| "build_index c (s # ss) = build_index (cache_put c (state_name s) (state_id s)) ss"

section \<open>The functions of the worker\<close>

text \<open>
  What both \<open>getStateMapping\<close> and \<open>updateIssueState\<close> do with the reply:
  \<^verbatim>\<open>if (!response.ok) throw\<close>, then \<^verbatim>\<open>await response.json()\<close>, then
  \<^verbatim>\<open>if (data.errors) throw\<close>, then the read of the payload.
\<close>

fun read_reply :: "'a upstream_response \<Rightarrow> js_error + 'a" where
  "read_reply NoResponse = Inl FetchFailed"
| "read_reply (HttpResponse st b) =
     (if \<not> response_ok st then Inl (LinearApiError st)
      else (case b of
        NotJson \<Rightarrow> Inl SyntaxError
      | GraphQL errors p \<Rightarrow>
          (if js_truthy errors then Inl (LinearGraphQLError errors)
           else (case p of None \<Rightarrow> Inl TypeError | Some v \<Rightarrow> Inr v))))"

definition getStateMapping :: "upstream \<Rightarrow> jsval \<Rightarrow> worker \<Rightarrow> (js_error + (string \<rightharpoonup> string)) \<times> worker" where
  "getStateMapping up apiKey w =
     (case stateCache w of
        Some c \<Rightarrow> (Inr c, w)
      | None \<Rightarrow>
          (let w1 = w\<lparr>upstream_calls := upstream_calls w @ [WorkflowStatesQuery apiKey]\<rparr> in
           case read_reply (workflowStates up apiKey) of
             Inl e \<Rightarrow> (Inl e, w1)
           | Inr states \<Rightarrow>
               (let c = build_index Map.empty states
                in (Inr c, w1\<lparr>stateCache := Some c\<rparr>))))"

definition updateIssueState :: "upstream \<Rightarrow> jsval \<Rightarrow> jsval \<Rightarrow> jsval \<Rightarrow> worker \<Rightarrow> (js_error + jsval) \<times> worker" where
  "updateIssueState up apiKey issueId stateId w =
     (read_reply (issueUpdate up apiKey issueId stateId),
      w\<lparr>upstream_calls := upstream_calls w @ [IssueUpdateMutation apiKey issueId stateId]\<rparr>)"

definition handleOptions :: response where
  "handleOptions = \<lparr>status = 204, headers = corsHeaders, body = NoBody\<rparr>"

text \<open>
  The block \<^verbatim>\<open>let stateId = targetStateId; if (!stateId) { ... }\<close> of \<open>handleUpdate\<close>:
  it throws, or returns the 404 response, or leaves the state id.
\<close>

definition resolve_stateId ::
  "upstream \<Rightarrow> jsval \<Rightarrow> jsval \<Rightarrow> jsval \<Rightarrow> worker \<Rightarrow> (js_error + response + jsval) \<times> worker" where
  "resolve_stateId up apiKey targetState targetStateId w =
     (if js_truthy targetStateId then (Inr (Inr targetStateId), w)
      else (case getStateMapping up apiKey w of
        (Inl e, w1) \<Rightarrow> (Inl e, w1)
      | (Inr stateMapping, w1) \<Rightarrow>
          (case js_to_string targetState of
             Inl e \<Rightarrow> (Inl e, w1)
           | Inr key \<Rightarrow>
               (let stateId = cache_get stateMapping key in
                if \<not> js_truthy stateId then
                  (Inr (Inl (json_response 404
                     (Json (JObj [(''error'',
                        JStr (''State '' @ [CHR 0x22] @ key @ [CHR 0x22] @ '' not found''))])))), w1)
                else (Inr (Inr stateId), w1)))))"

text \<open>The body of the \<^verbatim>\<open>try\<close> of \<open>handleUpdate\<close>: \<open>Inl\<close> is what it throws.\<close>

definition handleUpdate_try :: "upstream \<Rightarrow> request \<Rightarrow> jsval \<Rightarrow> worker \<Rightarrow> (js_error + response) \<times> worker" where
  "handleUpdate_try up req apiKey w =
     (case json req of
        None \<Rightarrow> (Inl SyntaxError, w)
      | Some b \<Rightarrow>
          (case (js_prop b ''issueId'', js_prop b ''targetState'',
                 js_prop b ''targetStateId'', js_prop b ''order'') of
             (Inr issueId, Inr targetState, Inr targetStateId, Inr order) \<Rightarrow>
               if \<not> js_truthy issueId \<or> \<not> js_truthy targetState then
                 (Inr (json_response 400
                    (Json (JObj [(''error'', JStr ''Missing issueId or targetState'')]))), w)
               else
                 (case resolve_stateId up apiKey targetState targetStateId w of
                    (Inl e, w1) \<Rightarrow> (Inl e, w1)
                  | (Inr (Inl notFound), w1) \<Rightarrow> (Inr notFound, w1)
                  | (Inr (Inr stateId), w1) \<Rightarrow>
                      (case updateIssueState up apiKey issueId stateId w1 of
                         (Inl e, w2) \<Rightarrow> (Inl e, w2)
                       | (Inr result, w2) \<Rightarrow>
                           (case order_guard order of
                              Inl e \<Rightarrow> (Inl e, w2)
                            | Inr u \<Rightarrow>
                                (case js_prop result ''issue'' of
                                   Inl e \<Rightarrow> (Inl e, w2)
                                 | Inr issue \<Rightarrow>
                                     (Inr (json_response 200
                                        (Json (JObj [(''success'', JBool True),
                                                     (''issue'', issue)]))), w2)))))
           | _ \<Rightarrow> (Inl TypeError, w)))"

text \<open>\<open>handleUpdate\<close> with its \<^verbatim>\<open>catch\<close>: every error becomes a 500 response.\<close>

definition handleUpdate :: "upstream \<Rightarrow> request \<Rightarrow> jsval \<Rightarrow> worker \<Rightarrow> response \<times> worker" where
  "handleUpdate up req apiKey w =
     (case handleUpdate_try up req apiKey w of
        (Inr resp, w1) \<Rightarrow> (resp, w1)
      | (Inl e, w1) \<Rightarrow> (json_response 500 (ErrorJson e), w1))"

text \<open>The handler \<^verbatim>\<open>fetch(request, env)\<close> the worker exports.\<close>

definition fetch :: "upstream \<Rightarrow> env \<Rightarrow> request \<Rightarrow> worker \<Rightarrow> response \<times> worker" where
  "fetch up e req w =
     (if http_method req = ''OPTIONS'' then (handleOptions, w)
      else
        (let apiKey = LINEAR_API_KEY e in
         if \<not> js_truthy apiKey then
           (json_response 500 (Json (JObj [(''error'', JStr ''LINEAR_API_KEY not configured'')])), w)
         else
           (let w1 = w\<lparr>stateCache := None\<rparr> in
            if pathname req = ''/update'' \<and> http_method req = ''POST'' then handleUpdate up req apiKey w1
            else if pathname req = ''/health'' \<and> http_method req = ''GET'' then
              (json_response 200 (Json (JObj [(''status'', JStr ''ok'')])), w1)
            else (\<lparr>status = 404, headers = corsHeaders, body = PlainText ''Not Found''\<rparr>, w1))))"

section \<open>Example inputs\<close>

text \<open>
  A workspace with two workflow states, and an upstream that lists them, accepts a mutation
  whose \<^verbatim>\<open>stateId\<close> is a string and answers it with the updated issue and the success
  flag \<open>ok\<close>, and answers any other \<^verbatim>\<open>stateId\<close> with a GraphQL error.
\<close>

definition demo_states :: "workflow_state list" where
  "demo_states =
     [\<lparr>state_id = ''st-todo'', state_name = ''Todo''\<rparr>,
      \<lparr>state_id = ''st-done'', state_name = ''Done''\<rparr>]"

definition demo_upstream :: "bool \<Rightarrow> upstream" where
  "demo_upstream ok =
     \<lparr>workflowStates = (\<lambda>key. HttpResponse 200 (GraphQL JUndefined (Some demo_states))),
      issueUpdate = (\<lambda>key issueId stateId.
        (case stateId of
           JStr s \<Rightarrow>
             HttpResponse 200 (GraphQL JUndefined (Some (JObj
               [(''success'', JBool ok),
                (''issue'', JObj [(''id'', issueId), (''state'', JObj [(''id'', JStr s)])])])))
         | _ \<Rightarrow>
             HttpResponse 200
               (GraphQL (JArr [JObj [(''message'', JStr ''stateId is not a String'')]]) None)))\<rparr>"

definition demo_env :: env where
  "demo_env = \<lparr>LINEAR_API_KEY = JStr ''lin_api_secret''\<rparr>"

definition unset_env :: env where
  "unset_env = \<lparr>LINEAR_API_KEY = JUndefined\<rparr>"

definition idle_worker :: worker where
  "idle_worker = \<lparr>stateCache = None, upstream_calls = []\<rparr>"

definition update_request :: "jsval \<Rightarrow> request" where
  "update_request b = \<lparr>http_method = ''POST'', pathname = ''/update'', json = Some b\<rparr>"

section \<open>Auxiliary facts\<close>

text \<open>A value that has one property read without a throw has every property read so.\<close>

lemma js_prop_defined: "js_prop b q = Inr v \<Longrightarrow> \<exists>v'. js_prop b p = Inr v'"
  by (cases b) simp_all

text \<open>Every error of the conversions and reads is a \<^verbatim>\<open>TypeError\<close>.\<close>

lemma js_prop_error: "js_prop b p = Inl err \<Longrightarrow> err = TypeError"
  by (cases b) simp_all

lemma js_to_string_error:
  "js_to_string v = Inl err \<Longrightarrow> err = TypeError"
  "array_join vs = Inl err \<Longrightarrow> err = TypeError"
  by (induction v and vs rule: js_to_string_array_join.induct)
    (auto split: if_splits sum.splits)

lemma order_guard_error: "order_guard v = Inl err \<Longrightarrow> err = TypeError"
  by (cases v) (auto split: option.splits sum.splits dest: js_to_string_error)

text \<open>The \<^verbatim>\<open>order\<close> guard does not throw on an array or on an absent \<^verbatim>\<open>order\<close>.\<close>

lemma order_guard_array: "order_guard (JArr xs) = Inr ()" "order_guard JUndefined = Inr ()"
  by simp_all

text \<open>\<open>handleUpdate_try\<close> once the four fields are read.\<close>

lemma handleUpdate_try_fields:
  assumes "json req = Some b"
    and "js_prop b ''issueId'' = Inr issueId" and "js_prop b ''targetState'' = Inr targetState"
    and "js_prop b ''targetStateId'' = Inr targetStateId" and "js_prop b ''order'' = Inr ord"
  shows "handleUpdate_try up req apiKey w =
     (if \<not> js_truthy issueId \<or> \<not> js_truthy targetState then
        (Inr (json_response 400
           (Json (JObj [(''error'', JStr ''Missing issueId or targetState'')]))), w)
      else
        (case resolve_stateId up apiKey targetState targetStateId w of
           (Inl e, w1) \<Rightarrow> (Inl e, w1)
         | (Inr (Inl notFound), w1) \<Rightarrow> (Inr notFound, w1)
         | (Inr (Inr stateId), w1) \<Rightarrow>
             (case updateIssueState up apiKey issueId stateId w1 of
                (Inl e, w2) \<Rightarrow> (Inl e, w2)
              | (Inr result, w2) \<Rightarrow>
                  (case order_guard ord of
                     Inl e \<Rightarrow> (Inl e, w2)
                   | Inr u \<Rightarrow>
                       (case js_prop result ''issue'' of
                          Inl e \<Rightarrow> (Inl e, w2)
                        | Inr issue \<Rightarrow>
                            (Inr (json_response 200
                               (Json (JObj [(''success'', JBool True),
                                            (''issue'', issue)]))), w2))))))"
  unfolding handleUpdate_try_def using assms by simp

text \<open>With the credential set, \<open>fetch\<close> clears the cache and hands \<^verbatim>\<open>POST /update\<close> on.\<close>

lemma fetch_update:
  assumes "js_truthy (LINEAR_API_KEY e)" and "http_method req = ''POST''" and "pathname req = ''/update''"
  shows "fetch up e req w = handleUpdate up req (LINEAR_API_KEY e) (w\<lparr>stateCache := None\<rparr>)"
  using assms by (simp add: fetch_def)

text \<open>Resolving the state id makes no upstream call, or the one query for the states.\<close>

lemma resolve_stateId_calls:
  assumes "resolve_stateId up k t sid w = (r, w1)"
  shows "upstream_calls w1 = upstream_calls w
       \<or> upstream_calls w1 = upstream_calls w @ [WorkflowStatesQuery k]"
  using assms
  by (auto simp add: resolve_stateId_def getStateMapping_def Let_def
      split: if_splits option.splits sum.splits prod.splits)

text \<open>Evaluation of the example inputs.\<close>

lemmas demo_simps =
  demo_states_def demo_upstream_def demo_env_def unset_env_def idle_worker_def update_request_def
  fetch_def handleUpdate_def handleUpdate_try_def resolve_stateId_def getStateMapping_def
  updateIssueState_def handleOptions_def json_response_def response_ok_def cache_get_def
  cache_put_def object_prototype_names_def Let_def

text \<open>The index after the \<^verbatim>\<open>forEach\<close>: names that do not occur, and \<^verbatim>\<open>__proto__\<close>, stay as they were.\<close>

lemma build_index_other:
  "k \<notin> state_name ` set states \<Longrightarrow> build_index c states k = c k"
  by (induction states arbitrary: c) (auto simp add: cache_put_def)

lemma build_index_proto: "build_index c states ''__proto__'' = c ''__proto__''"
  by (induction states arbitrary: c) (simp_all add: cache_put_def)

section \<open>The claims\<close>

subsection \<open>C1: what a successful update returns\<close>

text \<open>
  C1 says that the response to a \<^verbatim>\<open>POST /update\<close> that reaches a successful upstream
  mutation carries the \<^verbatim>\<open>success\<close> flag and the \<^verbatim>\<open>issue\<close> of the upstream's
  \<^verbatim>\<open>issueUpdate\<close> result. The code writes \<^verbatim>\<open>success: true\<close> into the response, a
  constant. Here the upstream reports \<^verbatim>\<open>success: false\<close> and the response says
  \<^verbatim>\<open>success: true\<close>.
\<close>

theorem success_flag_is_constant:
  "read_reply (issueUpdate (demo_upstream False) (JStr ''lin_api_secret'') (JStr ''ISS-1'') (JStr ''st-done''))
     = Inr (JObj [(''success'', JBool False),
                  (''issue'', JObj [(''id'', JStr ''ISS-1''), (''state'', JObj [(''id'', JStr ''st-done'')])])])
   \<and> fst (fetch (demo_upstream False) demo_env
        (update_request (JObj [(''issueId'', JStr ''ISS-1''), (''targetState'', JStr ''Done''),
                               (''targetStateId'', JStr ''st-done'')])) idle_worker)
     = json_response 200 (Json (JObj [(''success'', JBool True),
         (''issue'', JObj [(''id'', JStr ''ISS-1''), (''state'', JObj [(''id'', JStr ''st-done'')])])]))"
  by (simp add: demo_simps)

text \<open>
  C1 as the code has it. Take a request that makes upstream calls of which the last is the
  mutation, answered by the upstream with a result, and let \<open>ord\<close> be the \<^verbatim>\<open>order\<close> of
  its body. After the mutation the handler evaluates the \<^verbatim>\<open>order\<close> guard and reads
  \<^verbatim>\<open>result.issue\<close>. When neither throws, the response is 200 and its body is exactly
  \<^verbatim>\<open>{success: true, issue}\<close> with the \<^verbatim>\<open>issue\<close> of the upstream result, unchanged, and
  with the constant \<^verbatim>\<open>true\<close> for \<^verbatim>\<open>success\<close>, whatever flag the upstream reported. When
  one of them throws, the response is the 500 of that \<^verbatim>\<open>TypeError\<close>. The guard does not
  throw when \<^verbatim>\<open>order\<close> is absent or an array (\<open>order_guard_array\<close>), and the read
  throws only on a result that is \<^verbatim>\<open>null\<close> or \<^verbatim>\<open>undefined\<close>. Only \<^verbatim>\<open>POST /update\<close>
  with the credential set makes upstream calls, so the hypotheses say so without naming
  the route.
\<close>

theorem update_response_passthrough:
  assumes "fetch up e req w = (r, w')"
    and "upstream_calls w' = upstream_calls w @ cs @ [IssueUpdateMutation k i s]"
    and "read_reply (issueUpdate up k i s) = Inr result"
    and "json req = Some b" and "js_prop b ''order'' = Inr ord"
  shows "(\<forall>issue. order_guard ord = Inr () \<and> js_prop result ''issue'' = Inr issue \<longrightarrow>
            r = json_response 200 (Json (JObj [(''success'', JBool True), (''issue'', issue)])))
       \<and> ((\<exists>err. order_guard ord = Inl err) \<or> (\<exists>err. js_prop result ''issue'' = Inl err) \<longrightarrow>
            r = json_response 500 (ErrorJson TypeError))"
proof -
  let ?w0 = "w\<lparr>stateCache := None\<rparr>"
  let ?key = "LINEAR_API_KEY e"
  have route: "js_truthy ?key \<and> http_method req = ''POST'' \<and> pathname req = ''/update''"
  proof (rule ccontr)
    assume "\<not> (js_truthy ?key \<and> http_method req = ''POST'' \<and> pathname req = ''/update'')"
    then have "upstream_calls (snd (fetch up e req w)) = upstream_calls w"
      by (auto simp add: fetch_def Let_def)
    with assms(1,2) show False
      by simp
  qed
  have h: "handleUpdate up req ?key ?w0 = (r, w')"
    using route assms(1) by (simp add: fetch_update)
  obtain v where v: "js_prop b ''issueId'' = Inr v"
    using assms(5) js_prop_defined by blast
  obtain t where t: "js_prop b ''targetState'' = Inr t"
    using assms(5) js_prop_defined by blast
  obtain sid where sid: "js_prop b ''targetStateId'' = Inr sid"
    using assms(5) js_prop_defined by blast
  note f = handleUpdate_try_fields [OF assms(4) v t sid assms(5), of up ?key ?w0]
  show ?thesis
  proof (cases "\<not> js_truthy v \<or> \<not> js_truthy t")
    case True
    with h f assms(2) show ?thesis
      by (auto simp add: handleUpdate_def)
  next
    case False
    obtain x w1 where x: "resolve_stateId up ?key t sid ?w0 = (x, w1)"
      by (cases "resolve_stateId up ?key t sid ?w0")
    have c1: "upstream_calls w1 = upstream_calls w
            \<or> upstream_calls w1 = upstream_calls w @ [WorkflowStatesQuery ?key]"
      using resolve_stateId_calls [OF x] by simp
    show ?thesis
    proof (cases x)
      case (Inl err)
      with h f False x c1 assms(2) show ?thesis
        by (auto simp add: handleUpdate_def)
    next
      case (Inr y)
      show ?thesis
      proof (cases y)
        case (Inl notFound)
        with h f False x c1 assms(2) Inr show ?thesis
          by (auto simp add: handleUpdate_def)
      next
        case (Inr stateId)
        with h f False x c1 assms(2,3) \<open>x = Inr y\<close> show ?thesis
          by (auto simp add: handleUpdate_def updateIssueState_def split: sum.splits
              dest: order_guard_error js_prop_error)
      qed
    qed
  qed
qed

theorem update_response_passthrough_witness:
  "fetch (demo_upstream False) demo_env
        (update_request (JObj [(''issueId'', JStr ''ISS-1''), (''targetState'', JStr ''Done'')])) idle_worker
     = (json_response 200 (Json (JObj [(''success'', JBool True),
          (''issue'', JObj [(''id'', JStr ''ISS-1''), (''state'', JObj [(''id'', JStr ''st-done'')])])])),
        \<lparr>stateCache = Some (build_index Map.empty demo_states),
         upstream_calls = [WorkflowStatesQuery (JStr ''lin_api_secret''),
           IssueUpdateMutation (JStr ''lin_api_secret'') (JStr ''ISS-1'') (JStr ''st-done'')]\<rparr>)
   \<and> read_reply (issueUpdate (demo_upstream False) (JStr ''lin_api_secret'') (JStr ''ISS-1'') (JStr ''st-done''))
     = Inr (JObj [(''success'', JBool False),
                  (''issue'', JObj [(''id'', JStr ''ISS-1''), (''state'', JObj [(''id'', JStr ''st-done'')])])])
   \<and> js_prop (JObj [(''issueId'', JStr ''ISS-1''), (''targetState'', JStr ''Done'')]) ''order''
     = Inr JUndefined
   \<and> order_guard JUndefined = Inr ()
   \<and> js_prop (JObj [(''success'', JBool False),
                  (''issue'', JObj [(''id'', JStr ''ISS-1''), (''state'', JObj [(''id'', JStr ''st-done'')])])]) ''issue''
     = Inr (JObj [(''id'', JStr ''ISS-1''), (''state'', JObj [(''id'', JStr ''st-done'')])])"
proof -
  let ?b = "JObj [(''issueId'', JStr ''ISS-1''), (''targetState'', JStr ''Done'')]"
  let ?req = "update_request ?b"
  let ?w' = "\<lparr>stateCache = Some (build_index Map.empty demo_states),
         upstream_calls = [WorkflowStatesQuery (JStr ''lin_api_secret''),
           IssueUpdateMutation (JStr ''lin_api_secret'') (JStr ''ISS-1'') (JStr ''st-done'')]\<rparr>"
  let ?issue = "JObj [(''id'', JStr ''ISS-1''), (''state'', JObj [(''id'', JStr ''st-done'')])]"
  let ?result = "JObj [(''success'', JBool False), (''issue'', ?issue)]"
  have 1: "fetch (demo_upstream False) demo_env ?req idle_worker
             = (json_response 200 (Json (JObj [(''success'', JBool True), (''issue'', ?issue)])), ?w')"
    by (simp add: demo_simps)
  have 2: "upstream_calls ?w' = upstream_calls idle_worker @ [WorkflowStatesQuery (JStr ''lin_api_secret'')]
             @ [IssueUpdateMutation (JStr ''lin_api_secret'') (JStr ''ISS-1'') (JStr ''st-done'')]"
    by (simp add: idle_worker_def)
  have 3: "read_reply (issueUpdate (demo_upstream False) (JStr ''lin_api_secret'') (JStr ''ISS-1'') (JStr ''st-done''))
             = Inr ?result"
    by (simp add: demo_simps)
  have 4: "json ?req = Some ?b"
    by (simp add: update_request_def)
  have 5: "js_prop ?b ''order'' = Inr JUndefined"
    by simp
  have 6: "order_guard JUndefined = Inr ()"
    by simp
  have 7: "js_prop ?result ''issue'' = Inr ?issue"
    by simp
  from update_response_passthrough [OF 1 2 3 4 5] 1 3 5 6 7 show ?thesis
    by simp
qed

subsection \<open>C2: the health check\<close>

text \<open>
  C2 says that \<^verbatim>\<open>GET /health\<close> answers 200 whether or not the credential is configured.
  \<open>fetch\<close> tests the credential before it looks at the path: without the credential the
  health check answers 500.
\<close>

theorem health_without_credential:
  "LINEAR_API_KEY unset_env = JUndefined
   \<and> status (fst (fetch (demo_upstream True) unset_env
        \<lparr>http_method = ''GET'', pathname = ''/health'', json = None\<rparr> idle_worker)) = 500
   \<and> body (fst (fetch (demo_upstream True) unset_env
        \<lparr>http_method = ''GET'', pathname = ''/health'', json = None\<rparr> idle_worker))
     = Json (JObj [(''error'', JStr ''LINEAR_API_KEY not configured'')])"
  by (simp add: demo_simps)

text \<open>
  C2 as the code has it: with the credential configured, every \<^verbatim>\<open>GET /health\<close> answers
  200 with the body \<^verbatim>\<open>{"status": "ok"}\<close> and the CORS headers, and makes no upstream call.
\<close>

theorem health_with_credential:
  assumes "js_truthy (LINEAR_API_KEY e)" and "http_method req = ''GET''" and "pathname req = ''/health''"
  shows "fetch up e req w =
           (\<lparr>status = 200, headers = corsHeaders @ [(''Content-Type'', ''application/json'')],
             body = Json (JObj [(''status'', JStr ''ok'')])\<rparr>,
            w\<lparr>stateCache := None\<rparr>)"
  using assms by (simp add: fetch_def json_response_def)

theorem health_with_credential_witness:
  "js_truthy (LINEAR_API_KEY demo_env)
   \<and> fetch (demo_upstream True) demo_env
        \<lparr>http_method = ''GET'', pathname = ''/health'', json = None\<rparr> idle_worker
     = (\<lparr>status = 200, headers = corsHeaders @ [(''Content-Type'', ''application/json'')],
         body = Json (JObj [(''status'', JStr ''ok'')])\<rparr>, idle_worker)"
proof -
  have 1: "js_truthy (LINEAR_API_KEY demo_env)"
    by (simp add: demo_env_def)
  from health_with_credential [OF 1, of "\<lparr>http_method = ''GET'', pathname = ''/health'', json = None\<rparr>"
      "demo_upstream True" idle_worker] 1
  show ?thesis
    by (simp add: idle_worker_def)
qed

subsection \<open>C3: a supplied state id\<close>

text \<open>
  C3 says that a \<^verbatim>\<open>POST /update\<close> with an \<^verbatim>\<open>issueId\<close> and a \<^verbatim>\<open>targetStateId\<close> but no
  \<^verbatim>\<open>targetState\<close> is not rejected with 400. The code tests \<^verbatim>\<open>!issueId || !targetState\<close>
  before it looks at \<^verbatim>\<open>targetStateId\<close>: the request is answered 400 and nothing is sent
  upstream.
\<close>

theorem stateId_needs_targetState:
  "status (fst (fetch (demo_upstream True) demo_env
     (update_request (JObj [(''issueId'', JStr ''ISS-1''), (''targetStateId'', JStr ''st-done'')]))
     idle_worker)) = 400
   \<and> body (fst (fetch (demo_upstream True) demo_env
     (update_request (JObj [(''issueId'', JStr ''ISS-1''), (''targetStateId'', JStr ''st-done'')]))
     idle_worker)) = Json (JObj [(''error'', JStr ''Missing issueId or targetState'')])
   \<and> upstream_calls (snd (fetch (demo_upstream True) demo_env
     (update_request (JObj [(''issueId'', JStr ''ISS-1''), (''targetStateId'', JStr ''st-done'')]))
     idle_worker)) = []"
  by (simp add: demo_simps)

text \<open>
  C3 as the code has it: \<^verbatim>\<open>targetState\<close> is required whether or not \<^verbatim>\<open>targetStateId\<close> is
  given. With a non-empty \<^verbatim>\<open>issueId\<close> and a non-empty \<^verbatim>\<open>targetStateId\<close>, a request that
  also has a non-empty \<^verbatim>\<open>targetState\<close> is not rejected (its status is 200 or 500, as the
  upstream answers), and its one upstream call is the mutation with the supplied
  \<^verbatim>\<open>targetStateId\<close>: no query for the states is made. Without \<^verbatim>\<open>targetState\<close> the answer
  is 400 and the worker comes back unchanged.
\<close>

theorem supplied_stateId_is_used:
  assumes "json req = Some b"
    and "js_prop b ''issueId'' = Inr issueId" and "js_prop b ''targetState'' = Inr targetState"
    and "js_prop b ''targetStateId'' = Inr targetStateId"
    and "js_truthy issueId" and "js_truthy targetStateId"
  shows "(js_truthy targetState \<longrightarrow>
            status (fst (handleUpdate up req apiKey w)) \<in> {200, 500}
          \<and> upstream_calls (snd (handleUpdate up req apiKey w))
              = upstream_calls w @ [IssueUpdateMutation apiKey issueId targetStateId])
       \<and> (\<not> js_truthy targetState \<longrightarrow>
            status (fst (handleUpdate up req apiKey w)) = 400
          \<and> snd (handleUpdate up req apiKey w) = w)"
proof -
  obtain ord where ord: "js_prop b ''order'' = Inr ord"
    using assms(2) js_prop_defined by blast
  note f = handleUpdate_try_fields [OF assms(1-4) ord, of up apiKey w]
  show ?thesis
    using assms(5,6)
    by (simp add: handleUpdate_def f resolve_stateId_def updateIssueState_def json_response_def
        split: sum.splits)
qed

theorem supplied_stateId_is_used_witness:
  "js_prop (JObj [(''issueId'', JStr ''ISS-1''), (''targetState'', JStr ''Done''),
                  (''targetStateId'', JStr ''st-todo'')]) ''targetStateId'' = Inr (JStr ''st-todo'')
   \<and> js_truthy (JStr ''Done'')
   \<and> status (fst (handleUpdate (demo_upstream True)
        (update_request (JObj [(''issueId'', JStr ''ISS-1''), (''targetState'', JStr ''Done''),
                               (''targetStateId'', JStr ''st-todo'')]))
        (JStr ''lin_api_secret'') idle_worker)) = 200
   \<and> upstream_calls (snd (handleUpdate (demo_upstream True)
        (update_request (JObj [(''issueId'', JStr ''ISS-1''), (''targetState'', JStr ''Done''),
                               (''targetStateId'', JStr ''st-todo'')]))
        (JStr ''lin_api_secret'') idle_worker))
     = [IssueUpdateMutation (JStr ''lin_api_secret'') (JStr ''ISS-1'') (JStr ''st-todo'')]"
proof -
  let ?b = "JObj [(''issueId'', JStr ''ISS-1''), (''targetState'', JStr ''Done''),
                  (''targetStateId'', JStr ''st-todo'')]"
  have 1: "json (update_request ?b) = Some ?b"
    by (simp add: update_request_def)
  have 2: "js_prop ?b ''issueId'' = Inr (JStr ''ISS-1'')"
    and 3: "js_prop ?b ''targetState'' = Inr (JStr ''Done'')"
    and 4: "js_prop ?b ''targetStateId'' = Inr (JStr ''st-todo'')"
    by simp_all
  have 5: "js_truthy (JStr ''ISS-1'')" and 6: "js_truthy (JStr ''st-todo'')"
    and 7: "js_truthy (JStr ''Done'')"
    by simp_all
  have 8: "status (fst (handleUpdate (demo_upstream True) (update_request ?b)
             (JStr ''lin_api_secret'') idle_worker)) = 200"
    by (simp add: demo_simps)
  from supplied_stateId_is_used [OF 1 2 3 4 5 6, of "demo_upstream True" "JStr ''lin_api_secret''" idle_worker]
    4 7 8
  show ?thesis
    by (simp add: idle_worker_def)
qed

subsection \<open>C4: a missing required field\<close>

text \<open>
  C4 says that every \<^verbatim>\<open>POST /update\<close> whose body omits \<^verbatim>\<open>issueId\<close> or omits
  \<^verbatim>\<open>targetState\<close> is answered 400. The test for the fields stands inside the \<^verbatim>\<open>try\<close>,
  after \<^verbatim>\<open>await request.json()\<close> and the destructuring of the body, and the \<^verbatim>\<open>catch\<close>
  turns whatever these two throw into a 500. A body that is the JSON value \<^verbatim>\<open>null\<close> has
  neither field, and so has a body that is empty or not JSON; the first makes the
  destructuring throw a \<^verbatim>\<open>TypeError\<close>, the second makes \<^verbatim>\<open>request.json()\<close> reject, and
  both are answered 500, not 400. No upstream call is made.
\<close>

theorem unreadable_body_is_500:
  "status (fst (fetch (demo_upstream True) demo_env (update_request JNull) idle_worker)) = 500
   \<and> body (fst (fetch (demo_upstream True) demo_env (update_request JNull) idle_worker))
       = ErrorJson TypeError
   \<and> upstream_calls (snd (fetch (demo_upstream True) demo_env (update_request JNull) idle_worker)) = []
   \<and> status (fst (fetch (demo_upstream True) demo_env
         \<lparr>http_method = ''POST'', pathname = ''/update'', json = None\<rparr> idle_worker)) = 500
   \<and> body (fst (fetch (demo_upstream True) demo_env
         \<lparr>http_method = ''POST'', pathname = ''/update'', json = None\<rparr> idle_worker))
       = ErrorJson SyntaxError
   \<and> upstream_calls (snd (fetch (demo_upstream True) demo_env
         \<lparr>http_method = ''POST'', pathname = ''/update'', json = None\<rparr> idle_worker)) = []"
  by (simp add: demo_simps)

text \<open>
  C4 as the code has it, on \<open>handleUpdate\<close>, for every API key and in every state of the
  worker. First: when the body is JSON and its fields can be read (it is an object, with
  whatever other fields, or a number, a string, a boolean or an array, which have none of
  the fields) and \<^verbatim>\<open>issueId\<close> or \<^verbatim>\<open>targetState\<close> is omitted, the answer is 400 with the
  message of the missing field, and the worker comes back unchanged, so no upstream call
  is made. An omitted field reads as \<^verbatim>\<open>undefined\<close>, which is falsy, and the same holds for
  every falsy value of the field (\<^verbatim>\<open>null\<close>, the empty string, \<^verbatim>\<open>0\<close>, \<^verbatim>\<open>false\<close>).
  Second: when the body is not JSON or is \<^verbatim>\<open>null\<close>, the answer is the 500 of the error
  thrown, and again the worker comes back unchanged. \<open>fetch\<close> passes a \<^verbatim>\<open>POST /update\<close> to
  \<open>handleUpdate\<close> once the credential test has passed.
\<close>

theorem missing_field_400:
  "(json req = Some b \<and> js_prop b ''issueId'' = Inr issueId
      \<and> js_prop b ''targetState'' = Inr targetState
      \<and> (\<not> js_truthy issueId \<or> \<not> js_truthy targetState) \<longrightarrow>
        status (fst (handleUpdate up req apiKey w)) = 400
      \<and> body (fst (handleUpdate up req apiKey w))
          = Json (JObj [(''error'', JStr ''Missing issueId or targetState'')])
      \<and> snd (handleUpdate up req apiKey w) = w)
   \<and> (json req = None \<longrightarrow>
        status (fst (handleUpdate up req apiKey w)) = 500
      \<and> body (fst (handleUpdate up req apiKey w)) = ErrorJson SyntaxError
      \<and> snd (handleUpdate up req apiKey w) = w)
   \<and> (json req = Some JNull \<longrightarrow>
        status (fst (handleUpdate up req apiKey w)) = 500
      \<and> body (fst (handleUpdate up req apiKey w)) = ErrorJson TypeError
      \<and> snd (handleUpdate up req apiKey w) = w)"
proof (intro conjI impI)
  assume a: "json req = Some b \<and> js_prop b ''issueId'' = Inr issueId
      \<and> js_prop b ''targetState'' = Inr targetState
      \<and> (\<not> js_truthy issueId \<or> \<not> js_truthy targetState)"
  then have 1: "json req = Some b" and 2: "js_prop b ''issueId'' = Inr issueId"
    and 3: "js_prop b ''targetState'' = Inr targetState"
    and 4: "\<not> js_truthy issueId \<or> \<not> js_truthy targetState"
    by simp_all
  obtain targetStateId where s: "js_prop b ''targetStateId'' = Inr targetStateId"
    using 2 js_prop_defined by blast
  obtain ord where ord: "js_prop b ''order'' = Inr ord"
    using 2 js_prop_defined by blast
  note f = handleUpdate_try_fields [OF 1 2 3 s ord, of up apiKey w]
  from 4 show "status (fst (handleUpdate up req apiKey w)) = 400"
    by (simp add: handleUpdate_def f json_response_def)
  from 4 show "body (fst (handleUpdate up req apiKey w))
          = Json (JObj [(''error'', JStr ''Missing issueId or targetState'')])"
    by (simp add: handleUpdate_def f json_response_def)
  from 4 show "snd (handleUpdate up req apiKey w) = w"
    by (simp add: handleUpdate_def f)
next
  assume "json req = None"
  then show "status (fst (handleUpdate up req apiKey w)) = 500"
    and "body (fst (handleUpdate up req apiKey w)) = ErrorJson SyntaxError"
    and "snd (handleUpdate up req apiKey w) = w"
    by (simp_all add: handleUpdate_def handleUpdate_try_def json_response_def)
next
  assume "json req = Some JNull"
  then show "status (fst (handleUpdate up req apiKey w)) = 500"
    and "body (fst (handleUpdate up req apiKey w)) = ErrorJson TypeError"
    and "snd (handleUpdate up req apiKey w) = w"
    by (simp_all add: handleUpdate_def handleUpdate_try_def json_response_def)
qed

theorem missing_field_400_witness:
  "json (update_request (JObj [(''issueId'', JStr ''ISS-1''), (''targetStateId'', JStr ''st-done'')]))
     = Some (JObj [(''issueId'', JStr ''ISS-1''), (''targetStateId'', JStr ''st-done'')])
   \<and> js_prop (JObj [(''issueId'', JStr ''ISS-1''), (''targetStateId'', JStr ''st-done'')]) ''targetState''
     = Inr JUndefined
   \<and> status (fst (handleUpdate (demo_upstream True)
        (update_request (JObj [(''issueId'', JStr ''ISS-1''), (''targetStateId'', JStr ''st-done'')]))
        (JStr ''lin_api_secret'') idle_worker)) = 400
   \<and> snd (handleUpdate (demo_upstream True)
        (update_request (JObj [(''issueId'', JStr ''ISS-1''), (''targetStateId'', JStr ''st-done'')]))
        (JStr ''lin_api_secret'') idle_worker) = idle_worker
   \<and> json (update_request JNull) = Some JNull
   \<and> status (fst (handleUpdate (demo_upstream True) (update_request JNull)
        (JStr ''lin_api_secret'') idle_worker)) = 500
   \<and> json \<lparr>http_method = ''POST'', pathname = ''/update'', json = None\<rparr> = None
   \<and> status (fst (handleUpdate (demo_upstream True)
        \<lparr>http_method = ''POST'', pathname = ''/update'', json = None\<rparr>
        (JStr ''lin_api_secret'') idle_worker)) = 500"
proof -
  let ?b = "JObj [(''issueId'', JStr ''ISS-1''), (''targetStateId'', JStr ''st-done'')]"
  let ?bad = "\<lparr>http_method = ''POST'', pathname = ''/update'', json = None\<rparr>"
  have 1: "json (update_request ?b) = Some ?b"
    by (simp add: update_request_def)
  have 2: "js_prop ?b ''issueId'' = Inr (JStr ''ISS-1'')"
    by simp
  have 3: "js_prop ?b ''targetState'' = Inr JUndefined"
    by simp
  have 4: "\<not> js_truthy (JStr ''ISS-1'') \<or> \<not> js_truthy JUndefined"
    by simp
  have 5: "json (update_request JNull) = Some JNull"
    by (simp add: update_request_def)
  have 6: "json ?bad = None"
    by simp
  from missing_field_400 [of "update_request ?b" ?b "JStr ''ISS-1''" JUndefined
      "demo_upstream True" "JStr ''lin_api_secret''" idle_worker]
    missing_field_400 [of "update_request JNull" JNull JUndefined JUndefined
      "demo_upstream True" "JStr ''lin_api_secret''" idle_worker]
    missing_field_400 [of ?bad JNull JUndefined JUndefined
      "demo_upstream True" "JStr ''lin_api_secret''" idle_worker]
    1 2 3 4 5 6
  show ?thesis
    by simp
qed

subsection \<open>C5: no credential\<close>

text \<open>
  C5: when the API credential is absent from the environment, every request whose method
  is not \<^verbatim>\<open>OPTIONS\<close> is answered 500 with the configuration-error message, and no
  upstream call is made. An absent credential reads as \<^verbatim>\<open>undefined\<close>, which is falsy;
  the code tests \<^verbatim>\<open>!apiKey\<close>, so the same holds for every falsy credential (the empty
  string as well as an absent one).
\<close>

theorem missing_credential_500:
  assumes "\<not> js_truthy (LINEAR_API_KEY e)"
    and "http_method req \<noteq> ''OPTIONS''"
  shows "status (fst (fetch up e req w)) = 500
       \<and> body (fst (fetch up e req w)) = Json (JObj [(''error'', JStr ''LINEAR_API_KEY not configured'')])
       \<and> upstream_calls (snd (fetch up e req w)) = upstream_calls w"
  using assms by (simp add: fetch_def json_response_def)

theorem missing_credential_500_witness:
  "LINEAR_API_KEY unset_env = JUndefined
   \<and> http_method (update_request (JObj [(''issueId'', JStr ''ISS-1''), (''targetState'', JStr ''Done'')]))
       \<noteq> ''OPTIONS''
   \<and> status (fst (fetch (demo_upstream True) unset_env
        (update_request (JObj [(''issueId'', JStr ''ISS-1''), (''targetState'', JStr ''Done'')]))
        idle_worker)) = 500
   \<and> upstream_calls (snd (fetch (demo_upstream True) unset_env
        (update_request (JObj [(''issueId'', JStr ''ISS-1''), (''targetState'', JStr ''Done'')]))
        idle_worker)) = []"
proof -
  let ?req = "update_request (JObj [(''issueId'', JStr ''ISS-1''), (''targetState'', JStr ''Done'')])"
  have 1: "\<not> js_truthy (LINEAR_API_KEY unset_env)"
    by (simp add: unset_env_def)
  have 2: "http_method ?req \<noteq> ''OPTIONS''"
    by (simp add: update_request_def)
  have 3: "LINEAR_API_KEY unset_env = JUndefined"
    by (simp add: unset_env_def)
  from missing_credential_500 [OF 1 2, of "demo_upstream True" idle_worker] 2 3 show ?thesis
    by (simp add: idle_worker_def)
qed

subsection \<open>C6: an unknown state name\<close>

text \<open>
  C6: a \<^verbatim>\<open>POST /update\<close> with an \<^verbatim>\<open>issueId\<close>, no \<^verbatim>\<open>targetStateId\<close> and a
  \<^verbatim>\<open>targetState\<close> that is the name of no state in the fetched list is answered 404, and no
  mutation is sent. The code looks the name up in the plain object \<^verbatim>\<open>stateCache\<close>, and a
  plain object answers the names of \<^verbatim>\<open>Object.prototype\<close> too: for
  \<^verbatim>\<open>targetState: "constructor"\<close>, which names no state, \<^verbatim>\<open>stateMapping[targetState]\<close> is
  the inherited function, which is truthy, so the test \<^verbatim>\<open>!stateId\<close> does not answer 404
  and the mutation is sent. (The example upstream rejects it, and the response is 500.)
\<close>

theorem inherited_name_is_not_404:
  "''constructor'' \<notin> state_name ` set demo_states
   \<and> fst (fetch (demo_upstream True) demo_env
        (update_request (JObj [(''issueId'', JStr ''ISS-1''), (''targetState'', JStr ''constructor'')]))
        idle_worker)
     = json_response 500 (ErrorJson (LinearGraphQLError
         (JArr [JObj [(''message'', JStr ''stateId is not a String'')]])))
   \<and> upstream_calls (snd (fetch (demo_upstream True) demo_env
        (update_request (JObj [(''issueId'', JStr ''ISS-1''), (''targetState'', JStr ''constructor'')]))
        idle_worker))
     = [WorkflowStatesQuery (JStr ''lin_api_secret''),
        IssueUpdateMutation (JStr ''lin_api_secret'') (JStr ''ISS-1'') (JInherited ''constructor'')]"
  by (simp add: demo_simps)

text \<open>
  Away from the names of \<^verbatim>\<open>Object.prototype\<close> the code does what C6 says: a name that
  is neither the name of a fetched state nor defined on \<^verbatim>\<open>Object.prototype\<close> is answered
  404, and the query for the states is the only upstream call.
\<close>

lemma unknown_state_404:
  assumes "js_truthy (LINEAR_API_KEY e)" and "http_method req = ''POST''" and "pathname req = ''/update''"
    and "json req = Some b"
    and "js_prop b ''issueId'' = Inr issueId" and "js_prop b ''targetState'' = Inr (JStr name)"
    and "js_prop b ''targetStateId'' = Inr targetStateId"
    and "js_truthy issueId" and "name \<noteq> []" and "\<not> js_truthy targetStateId"
    and "read_reply (workflowStates up (LINEAR_API_KEY e)) = Inr states"
    and "name \<notin> state_name ` set states"
    and "name \<notin> set object_prototype_names"
  shows "status (fst (fetch up e req w)) = 404
       \<and> upstream_calls (snd (fetch up e req w))
           = upstream_calls w @ [WorkflowStatesQuery (LINEAR_API_KEY e)]"
proof -
  obtain ord where ord: "js_prop b ''order'' = Inr ord"
    using assms(5) js_prop_defined by blast
  note f = handleUpdate_try_fields [OF assms(4-7) ord, of up "LINEAR_API_KEY e" "w\<lparr>stateCache := None\<rparr>"]
  have "cache_get (build_index Map.empty states) name = JUndefined"
    using assms(12,13) by (simp add: cache_get_def build_index_other)
  then show ?thesis
    unfolding fetch_update [OF assms(1-3)] handleUpdate_def f
    using assms(8-11)
    by (simp add: resolve_stateId_def getStateMapping_def json_response_def Let_def)
qed

subsection \<open>C7: the preflight\<close>

text \<open>
  C7: every request with the method \<^verbatim>\<open>OPTIONS\<close> is answered 204 with an empty body and
  the CORS headers, whatever its path and whether or not the credential is configured.
  The answer comes before the credential check and the routing: it does not depend on the
  environment, and the worker comes back as it was, its cache not even cleared.
\<close>

theorem options_preflight:
  assumes "http_method req = ''OPTIONS''"
  shows "fetch up e req w =
           (\<lparr>status = 204,
             headers = [(''Access-Control-Allow-Origin'', ''*''),
                        (''Access-Control-Allow-Methods'', ''GET, POST, OPTIONS''),
                        (''Access-Control-Allow-Headers'', ''Content-Type'')],
             body = NoBody\<rparr>, w)"
  using assms by (simp add: fetch_def handleOptions_def corsHeaders_def)

theorem options_preflight_witness:
  "http_method \<lparr>http_method = ''OPTIONS'', pathname = ''/update'', json = None\<rparr> = ''OPTIONS''
   \<and> fetch (demo_upstream True) unset_env
        \<lparr>http_method = ''OPTIONS'', pathname = ''/update'', json = None\<rparr> idle_worker
     = (\<lparr>status = 204,
         headers = [(''Access-Control-Allow-Origin'', ''*''),
                    (''Access-Control-Allow-Methods'', ''GET, POST, OPTIONS''),
                    (''Access-Control-Allow-Headers'', ''Content-Type'')],
         body = NoBody\<rparr>, idle_worker)"
proof -
  have 1: "http_method \<lparr>http_method = ''OPTIONS'', pathname = ''/update'', json = None\<rparr> = ''OPTIONS''"
    by simp
  from options_preflight [OF 1, of "demo_upstream True" unset_env idle_worker] 1 show ?thesis
    by simp
qed

subsection \<open>C8: two states of one name\<close>

text \<open>
  C8: when two or more states of the upstream list share a name, the index built from the
  list maps the name to the id of the last of them. The index is the plain object
  \<^verbatim>\<open>stateCache\<close>, and for the name \<^verbatim>\<open>__proto__\<close> the assignment
  \<^verbatim>\<open>stateCache[state.name] = state.id\<close> stores nothing: of two states named
  \<^verbatim>\<open>__proto__\<close> neither id is in the index, and the lookup of the name gives
  \<^verbatim>\<open>Object.prototype\<close>, not the id of the last one.
\<close>

theorem proto_name_is_not_indexed:
  "build_index Map.empty
     [\<lparr>state_id = ''st-a'', state_name = ''__proto__''\<rparr>,
      \<lparr>state_id = ''st-b'', state_name = ''__proto__''\<rparr>] ''__proto__'' = None
   \<and> cache_get (build_index Map.empty
       [\<lparr>state_id = ''st-a'', state_name = ''__proto__''\<rparr>,
        \<lparr>state_id = ''st-b'', state_name = ''__proto__''\<rparr>]) ''__proto__'' = JInherited ''__proto__''"
  by (simp add: cache_get_def cache_put_def object_prototype_names_def)

text \<open>
  For every other name the code does what C8 says: the last state of the name wins,
  however many states share it.
\<close>

lemma build_index_last:
  assumes "k \<noteq> ''__proto__''" and "k \<in> state_name ` set states"
  shows "build_index c states k = Some (state_id (last (filter (\<lambda>s. state_name s = k) states)))"
  using assms(2)
proof (induction states arbitrary: c)
  case Nil
  then show ?case by simp
next
  case (Cons s states)
  show ?case
  proof (cases "k \<in> state_name ` set states")
    case True
    then have "filter (\<lambda>s. state_name s = k) states \<noteq> []"
      by (auto simp add: filter_empty_conv)
    with Cons.IH [OF True] show ?thesis
      by simp
  next
    case False
    then have "filter (\<lambda>s. state_name s = k) states = []"
      by (auto simp add: filter_empty_conv)
    moreover from False Cons.prems have "state_name s = k"
      by simp
    ultimately show ?thesis
      using assms(1) False by (simp add: build_index_other cache_put_def)
  qed
qed

lemma last_write_wins:
  assumes "k \<noteq> ''__proto__''" and "k \<in> state_name ` set states"
  shows "cache_get (build_index Map.empty states) k
           = JStr (state_id (last (filter (\<lambda>s. state_name s = k) states)))"
  by (simp add: cache_get_def build_index_last [OF assms])

text \<open>
  And whatever the list, the index has no entry of its own under \<^verbatim>\<open>__proto__\<close>: the
  lookup of that name always gives \<^verbatim>\<open>Object.prototype\<close>.
\<close>

lemma proto_never_indexed:
  "cache_get (build_index Map.empty states) ''__proto__'' = JInherited ''__proto__''"
  by (simp add: cache_get_def build_index_proto object_prototype_names_def)

subsection \<open>C9: the order hint\<close>

text \<open>
  C9: two requests that differ only in that the body of one supplies an \<^verbatim>\<open>order\<close> array
  and the body of the other omits \<^verbatim>\<open>order\<close> get, from the same upstream, in the same
  environment and the same state of the worker, the same response (its status and its
  \<^verbatim>\<open>issue\<close> with it) and leave the same state behind, the same upstream calls made. So
  supplying \<^verbatim>\<open>order\<close> neither fails a request nor changes its result.
\<close>

theorem order_is_ignored:
  assumes "json req = Some b" and "js_prop b ''order'' = Inr (JArr xs)"
    and "json req' = Some b'" and "js_prop b' ''order'' = Inr JUndefined"
    and "http_method req' = http_method req" and "pathname req' = pathname req"
    and "js_prop b' ''issueId'' = js_prop b ''issueId''"
    and "js_prop b' ''targetState'' = js_prop b ''targetState''"
    and "js_prop b' ''targetStateId'' = js_prop b ''targetStateId''"
  shows "fetch up e req w = fetch up e req' w"
proof -
  obtain i where i: "js_prop b ''issueId'' = Inr i"
    using assms(2) js_prop_defined by blast
  obtain t where t: "js_prop b ''targetState'' = Inr t"
    using assms(2) js_prop_defined by blast
  obtain s where s: "js_prop b ''targetStateId'' = Inr s"
    using assms(2) js_prop_defined by blast
  have i': "js_prop b' ''issueId'' = Inr i" and t': "js_prop b' ''targetState'' = Inr t"
    and s': "js_prop b' ''targetStateId'' = Inr s"
    using assms(7-9) i t s by simp_all
  have guard: "order_guard (JArr xs) = order_guard JUndefined"
    by simp
  have "handleUpdate_try up req k v = handleUpdate_try up req' k v" for k v
    unfolding handleUpdate_try_fields [OF assms(1) i t s assms(2)]
      handleUpdate_try_fields [OF assms(3) i' t' s' assms(4)] guard
    by (rule refl)
  then have "handleUpdate up req k v = handleUpdate up req' k v" for k v
    by (simp add: handleUpdate_def)
  then show ?thesis
    using assms(5,6) by (simp add: fetch_def Let_def)
qed

theorem order_is_ignored_witness:
  "js_prop (JObj [(''issueId'', JStr ''ISS-1''), (''targetState'', JStr ''Done''),
                  (''order'', JArr [JStr ''ISS-2'', JStr ''ISS-1''])]) ''order''
     = Inr (JArr [JStr ''ISS-2'', JStr ''ISS-1''])
   \<and> js_prop (JObj [(''issueId'', JStr ''ISS-1''), (''targetState'', JStr ''Done'')]) ''order''
     = Inr JUndefined
   \<and> fetch (demo_upstream True) demo_env
        (update_request (JObj [(''issueId'', JStr ''ISS-1''), (''targetState'', JStr ''Done''),
                               (''order'', JArr [JStr ''ISS-2'', JStr ''ISS-1''])])) idle_worker
     = fetch (demo_upstream True) demo_env
        (update_request (JObj [(''issueId'', JStr ''ISS-1''), (''targetState'', JStr ''Done'')])) idle_worker
   \<and> status (fst (fetch (demo_upstream True) demo_env
        (update_request (JObj [(''issueId'', JStr ''ISS-1''), (''targetState'', JStr ''Done'')])) idle_worker))
     = 200"
proof -
  let ?b = "JObj [(''issueId'', JStr ''ISS-1''), (''targetState'', JStr ''Done''),
                  (''order'', JArr [JStr ''ISS-2'', JStr ''ISS-1''])]"
  let ?b' = "JObj [(''issueId'', JStr ''ISS-1''), (''targetState'', JStr ''Done'')]"
  have 1: "json (update_request ?b) = Some ?b" and 3: "json (update_request ?b') = Some ?b'"
    by (simp_all add: update_request_def)
  have 2: "js_prop ?b ''order'' = Inr (JArr [JStr ''ISS-2'', JStr ''ISS-1''])"
    by simp
  have 4: "js_prop ?b' ''order'' = Inr JUndefined"
    by simp
  have 5: "http_method (update_request ?b') = http_method (update_request ?b)"
    and 6: "pathname (update_request ?b') = pathname (update_request ?b)"
    by (simp_all add: update_request_def)
  have 7: "js_prop ?b' ''issueId'' = js_prop ?b ''issueId''"
    and 8: "js_prop ?b' ''targetState'' = js_prop ?b ''targetState''"
    and 9: "js_prop ?b' ''targetStateId'' = js_prop ?b ''targetStateId''"
    by simp_all
  have 10: "status (fst (fetch (demo_upstream True) demo_env (update_request ?b') idle_worker)) = 200"
    by (simp add: demo_simps)
  from order_is_ignored [OF 1 2 3 4 5 6 7 8 9, of "demo_upstream True" demo_env idle_worker] 2 4 10
  show ?thesis
    by simp
qed

subsection \<open>C10: an empty state id\<close>



end
